theory Spec2Isabelle
  imports Main
begin

section \<open>Subscriber documents and their collection (models/Newsletter.js)\<close>

text \<open>
  A document of the \<open>Newsletter\<close> collection. Dates are points of a discrete clock.
  The \<open>preferences\<close> sub-document and the \<open>createdAt\<close>/\<open>updatedAt\<close> stamps that
  Mongoose maintains are never read or written by the handlers modelled here and are left out.
  Strings are ASCII texts, so that the length of a string is its number of characters.

  Email addresses are handled in the form \<open>normalizeEmail\<close> gives them, which is lower
  case; on such addresses the schema's \<open>lowercase\<close> setter changes nothing, and the
  model stores and compares them as they are.

  The database answers every call: a lost connection is not modelled. What \<open>save\<close>
  can refuse, a document that fails the schema's validators or repeats an email, is.
\<close>

record subscriber =
  email :: string
  name :: "string option"
  interests :: "string list"
  subscriptionSource :: string
  isActive :: bool
  subscriptionDate :: nat
  lastEmailSent :: "nat option"
  emailCount :: nat
  ipAddress :: "string option"
  userAgent :: "string option"

text \<open>The collection, in insertion order. A document's position stands for its \<open>_id\<close>.\<close>

type_synonym store = "subscriber list"

definition interest_enum :: "string list" where
  "interest_enum =
     [''web-development'', ''graphic-design'', ''video-editing'', ''music-production'',
      ''online-jobs'', ''computer-packages'', ''robotics-ml'', ''cyber-security'', ''all'']"

definition source_enum :: "string list" where
  "source_enum = [''website'', ''social-media'', ''referral'', ''event'', ''other'']"

text \<open>
  \<open>String.prototype.trim\<close> and validator.js \<open>trim\<close> on ASCII text: white space is
  removed at both ends.
\<close>

definition is_space :: "char \<Rightarrow> bool" where
  "is_space c = (c \<in> set [CHR 0x09, CHR 0x0A, CHR 0x0B, CHR 0x0C, CHR 0x0D, CHR 0x20])"

definition trim :: "string \<Rightarrow> string" where
  "trim s = rev (dropWhile is_space (rev (dropWhile is_space s)))"

text \<open>
  The validators the schema declares, run by \<open>save()\<close> on the whole document. The
  regular expression of the email path is a parameter \<open>pat\<close>: \<open>pat e\<close> is
  \<open>/^\w+([.-]?\w+)*@\w+([.-]?\w+)*(\.\w{2,3})+$/.test(e)\<close>.
\<close>

definition schema_valid :: "(string \<Rightarrow> bool) \<Rightarrow> subscriber \<Rightarrow> bool" where
  "schema_valid pat r =
     (email r \<noteq> [] \<and> pat (email r)
      \<and> (case name r of None \<Rightarrow> True | Some n \<Rightarrow> length n \<le> 100)
      \<and> list_all (\<lambda>t. t \<in> set interest_enum) (interests r)
      \<and> subscriptionSource r \<in> set source_enum)"

text \<open>\<open>newsletterSchema.pre('save')\<close>: a new document with no interests gets \<open>['all']\<close>.\<close>

definition pre_save :: "bool \<Rightarrow> subscriber \<Rightarrow> subscriber" where
  "pre_save isNew r =
     (if isNew \<and> length (interests r) = 0 then r\<lparr>interests := [''all'']\<rparr> else r)"

datatype store_error = ValidationError | DuplicateKey

text \<open>
  \<open>doc.save()\<close>. The document is new (\<open>None\<close>) or was loaded from position \<open>i\<close>
  (\<open>Some i\<close>). Validation runs first, then the pre-save hook; a new document is refused
  when its email is already in the collection (the unique index), otherwise appended; a
  loaded one is written back in place. A refusal is the exception \<open>save\<close> throws;
  otherwise the result is the document as the hook left it, and the collection.
\<close>

definition save ::
  "(string \<Rightarrow> bool) \<Rightarrow> nat option \<Rightarrow> subscriber \<Rightarrow> store \<Rightarrow> store_error + subscriber \<times> store" where
  "save pat pos r st =
     (if \<not> schema_valid pat r then Inl ValidationError
      else (case pos of
              None \<Rightarrow>
                (let r' = pre_save True r in
                 if email r' \<in> set (map email st) then Inl DuplicateKey
                 else Inr (r', st @ [r']))
            | Some i \<Rightarrow> (let r' = pre_save False r in Inr (r', st[i := r']))))"

text \<open>The query filters the handlers use, and Mongo's matching of a document against one.\<close>

datatype query =
    Q_email string
  | Q_email_in "string list"
  | Q_isActive bool
  | Q_interests string
  | Q_or "query list"
  | Q_and "query list"

fun matches :: "query \<Rightarrow> subscriber \<Rightarrow> bool" where
  "matches (Q_email e) r = (email r = e)"
| "matches (Q_email_in es) r = (email r \<in> set es)"
| "matches (Q_isActive b) r = (isActive r = b)"
| "matches (Q_interests t) r = (t \<in> set (interests r))"
| "matches (Q_or qs) r = (\<exists>q \<in> set qs. matches q r)"
| "matches (Q_and qs) r = (\<forall>q \<in> set qs. matches q r)"

definition find_docs :: "query \<Rightarrow> store \<Rightarrow> subscriber list" where
  "find_docs q st = filter (matches q) st"

text \<open>\<open>Model.findOne\<close>: the position of the first matching document, if there is one.\<close>

definition findOne :: "query \<Rightarrow> store \<Rightarrow> nat option" where
  "findOne q st =
     (case filter (\<lambda>i. matches q (st ! i)) [0..<length st] of [] \<Rightarrow> None | i # _ \<Rightarrow> Some i)"

definition updateMany :: "query \<Rightarrow> (subscriber \<Rightarrow> subscriber) \<Rightarrow> store \<Rightarrow> store" where
  "updateMany q upd st = map (\<lambda>r. if matches q r then upd r else r) st"

definition getActiveSubscribers :: "store \<Rightarrow> subscriber list" where
  "getActiveSubscribers st = find_docs (Q_isActive True) st"

definition getSubscribersByInterest :: "string \<Rightarrow> store \<Rightarrow> subscriber list" where
  "getSubscribersByInterest interest st =
     find_docs (Q_and [Q_isActive True, Q_or [Q_interests interest, Q_interests ''all'']]) st"

section \<open>The mail service (services/emailService.js)\<close>

text \<open>
  A message handed to \<open>transporter.sendMail\<close>. The HTML body is one of two templates;
  it is kept as the template with the values put into its holes.
\<close>

datatype html =
    Newsletter_html string string string string
  | Confirmation_html string string

record mailOptions =
  mail_from :: string
  mail_to :: string
  mail_subject :: string
  mail_html :: html

text \<open>
  The mail gateway is the outside world. Its state is the list of the messages handed to
  \<open>sendMail\<close> so far, oldest first. A transporter answers a message, given what was sent
  before, with a message id (\<open>Inr\<close>) or with the error it throws (\<open>Inl\<close>).
\<close>

type_synonym gateway = "mailOptions list"

type_synonym transporter = "mailOptions list \<Rightarrow> mailOptions \<Rightarrow> string + string"

definition sendMail :: "transporter \<Rightarrow> gateway \<Rightarrow> mailOptions \<Rightarrow> (string + string) \<times> gateway" where
  "sendMail t g m = (t g m, g @ [m])"

text \<open>
  The process environment and nodemailer: \<open>createTransporter\<close> throws (\<open>Inl\<close>, the
  error's message) or gives a transporter. The source calls
  \<open>nodemailer.createTransporter\<close>; nodemailer's factory is named \<open>createTransport\<close>,
  so with the library as published the call throws
  "nodemailer.createTransporter is not a function".
\<close>

record mailer =
  EMAIL_USER :: string
  FRONTEND_URL :: string
  createTransporter :: "string + transporter"

definition mail_sender :: "mailer \<Rightarrow> string" where
  "mail_sender ml = ''\"Cyber Cloud Kenya\" <'' @ EMAIL_USER ml @ ''>''"

text \<open>What a mail function returns: \<open>{success: true, messageId}\<close> or \<open>{success: false, error}\<close>.\<close>

datatype mail_result = Mail_ok string | Mail_failed string

definition confirmation_mail :: "mailer \<Rightarrow> string \<Rightarrow> string option \<Rightarrow> mailOptions" where
  "confirmation_mail ml e n =
     \<lparr>mail_from = mail_sender ml, mail_to = e,
      mail_subject = ''Welcome to Cyber Cloud Kenya Newsletter!'',
      mail_html = Confirmation_html
        (case n of None \<Rightarrow> ''there'' | Some s \<Rightarrow> if s = [] then ''there'' else s)
        (FRONTEND_URL ml)\<rparr>"

definition sendNewsletterConfirmation ::
  "mailer \<Rightarrow> string \<Rightarrow> string option \<Rightarrow> gateway \<Rightarrow> mail_result \<times> gateway" where
  "sendNewsletterConfirmation ml e n g =
     (case createTransporter ml of
        Inl err \<Rightarrow> (Mail_failed err, g)
      | Inr t \<Rightarrow>
          (case sendMail t g (confirmation_mail ml e n) of
             (Inr mid, g') \<Rightarrow> (Mail_ok mid, g')
           | (Inl err, g') \<Rightarrow> (Mail_failed err, g')))"

text \<open>
  One entry of \<open>results\<close>: \<open>{email, success: true, messageId}\<close> or
  \<open>{email, success: false, error}\<close>.
\<close>

datatype outcome = Delivered string string | Undelivered string string

fun outcome_email :: "outcome \<Rightarrow> string" where
  "outcome_email (Delivered e mid) = e"
| "outcome_email (Undelivered e err) = e"

fun outcome_success :: "outcome \<Rightarrow> bool" where
  "outcome_success (Delivered e mid) = True"
| "outcome_success (Undelivered e err) = False"

definition newsletter_mail :: "mailer \<Rightarrow> string \<Rightarrow> string \<Rightarrow> subscriber \<Rightarrow> mailOptions" where
  "newsletter_mail ml subject content s =
     \<lparr>mail_from = mail_sender ml, mail_to = email s, mail_subject = subject,
      mail_html = Newsletter_html subject content (FRONTEND_URL ml) (email s)\<rparr>"

text \<open>
  The body of the \<open>for ... of\<close> loop of \<open>sendNewsletter\<close>: one \<open>sendMail\<close> in its
  own \<open>try\<close>/\<open>catch\<close>, giving the entry pushed on \<open>results\<close>.
\<close>

definition deliver ::
  "mailer \<Rightarrow> transporter \<Rightarrow> string \<Rightarrow> string \<Rightarrow> subscriber \<Rightarrow> gateway \<Rightarrow> outcome \<times> gateway" where
  "deliver ml t subject content s g =
     (case sendMail t g (newsletter_mail ml subject content s) of
        (Inr mid, g') \<Rightarrow> (Delivered (email s) mid, g')
      | (Inl err, g') \<Rightarrow> (Undelivered (email s) err, g'))"

text \<open>The loop, with \<open>results\<close> as accumulator.\<close>

fun send_loop ::
  "mailer \<Rightarrow> transporter \<Rightarrow> string \<Rightarrow> string \<Rightarrow> subscriber list \<Rightarrow> outcome list \<Rightarrow> gateway
     \<Rightarrow> outcome list \<times> gateway" where
  "send_loop ml t subject content [] results g = (results, g)"
| "send_loop ml t subject content (s # ss) results g =
     (case deliver ml t subject content s g of
        (r, g') \<Rightarrow> send_loop ml t subject content ss (results @ [r]) g')"

text \<open>
  What \<open>sendNewsletter\<close> returns: the array \<open>results\<close>, or, from the outer \<open>catch\<close>,
  the object \<open>{success: false, error}\<close>.
\<close>

datatype send_result = Results "outcome list" | Send_failed string

definition sendNewsletter ::
  "mailer \<Rightarrow> string \<Rightarrow> string \<Rightarrow> subscriber list \<Rightarrow> gateway \<Rightarrow> send_result \<times> gateway" where
  "sendNewsletter ml subject content subscribers g =
     (case createTransporter ml of
        Inl err \<Rightarrow> (Send_failed err, g)
      | Inr t \<Rightarrow>
          (case send_loop ml t subject content subscribers [] g of
             (results, g') \<Rightarrow> (Results results, g')))"

section \<open>Responses\<close>

datatype payload =
    No_data
  | Errors "string list"
  | Reactivated string "string option" "string list"
  | Subscribed string "string option" "string list" nat
  | Send_report nat nat nat

record response =
  status :: nat
  success :: bool
  message :: string
  payload :: payload

definition validation_failed :: "string list \<Rightarrow> response" where
  "validation_failed errors =
     \<lparr>status = 400, success = False, message = ''Validation failed'', payload = Errors errors\<rparr>"

text \<open>JavaScript's truth value of a string that may be \<open>undefined\<close>.\<close>

definition truthy :: "string option \<Rightarrow> bool" where
  "truthy v = (case v of None \<Rightarrow> False | Some s \<Rightarrow> s \<noteq> [])"

section \<open>Broadcast (routes/admin.js, POST /api/admin/newsletter/send)\<close>

text \<open>
  The request body. The handler runs behind \<open>protect\<close> and \<open>authorize('admin')\<close>; the
  model starts where they have let the request through. \<open>subject\<close> and \<open>content\<close>
  are strings, \<open>targetAudience\<close> and \<open>interest\<close> strings or absent.
\<close>

record send_body =
  rq_subject :: string
  rq_content :: string
  rq_targetAudience :: "string option"
  rq_interest :: "string option"

definition send_validation :: "send_body \<Rightarrow> string list" where
  "send_validation b =
     (if 5 \<le> length (trim (rq_subject b)) \<and> length (trim (rq_subject b)) \<le> 200 then []
      else [''Subject must be between 5 and 200 characters''])
     @ (if 10 \<le> length (trim (rq_content b)) \<and> length (trim (rq_content b)) \<le> 10000 then []
        else [''Content must be between 10 and 10000 characters''])
     @ (case rq_targetAudience b of
          None \<Rightarrow> []
        | Some a \<Rightarrow>
            if a \<in> set [''all'', ''active'', ''specific-interest''] then []
            else [''Invalid target audience''])
     @ (case rq_interest b of
          None \<Rightarrow> []
        | Some t \<Rightarrow> if t \<in> set interest_enum then [] else [''Invalid interest''])"

text \<open>
  "Get subscribers based on target audience":
  \<open>targetAudience === 'specific-interest' && interest\<close> chooses the query by interest,
  anything else the active subscribers.
\<close>

definition select_subscribers :: "store \<Rightarrow> send_body \<Rightarrow> subscriber list" where
  "select_subscribers st b =
     (case rq_interest b of
        Some t \<Rightarrow>
          if rq_targetAudience b = Some ''specific-interest'' \<and> truthy (Some t)
          then getSubscribersByInterest t st
          else getActiveSubscribers st
      | None \<Rightarrow> getActiveSubscribers st)"

text \<open>"Update email count for subscribers": the \<open>updateMany\<close> call.\<close>

definition record_deliveries :: "nat \<Rightarrow> outcome list \<Rightarrow> store \<Rightarrow> store" where
  "record_deliveries now results st =
     updateMany (Q_email_in (map outcome_email (filter outcome_success results)))
       (\<lambda>r. r\<lparr>emailCount := emailCount r + 1, lastEmailSent := Some now\<rparr>) st"

text \<open>A number inside a template literal: its decimal digits.\<close>

definition digit :: "nat \<Rightarrow> char" where
  "digit d = ''0123456789'' ! d"

fun string_of_nat :: "nat \<Rightarrow> string" where
  "string_of_nat n =
     (if 10 \<le> n then string_of_nat (n div 10) @ [digit (n mod 10)] else [digit n])"

definition server_error :: response where
  "server_error = \<lparr>status = 500, success = False, message = ''Server error'', payload = No_data\<rparr>"

text \<open>
  The handler. When \<open>sendNewsletter\<close> returns the object of its outer \<open>catch\<close>,
  \<open>results.filter\<close> is not a function: the call throws a TypeError before
  \<open>updateMany\<close> is reached, and the handler's own \<open>catch\<close> answers 500.
\<close>

definition post_newsletter_send ::
  "mailer \<Rightarrow> nat \<Rightarrow> send_body \<Rightarrow> store \<Rightarrow> gateway \<Rightarrow> response \<times> store \<times> gateway" where
  "post_newsletter_send ml now b st g =
     (let errors = send_validation b in
      if errors \<noteq> [] then (validation_failed errors, st, g)
      else
        (let subject = trim (rq_subject b);
             content = trim (rq_content b);
             subscribers = select_subscribers st b
         in if length subscribers = 0
            then (\<lparr>status = 400, success = False,
                   message = ''No active subscribers found for the selected criteria'',
                   payload = No_data\<rparr>, st, g)
            else
              (case sendNewsletter ml subject content subscribers g of
                 (Send_failed err, g') \<Rightarrow> (server_error, st, g')
               | (Results results, g') \<Rightarrow>
                   (let successfulSends = length (filter outcome_success results) in
                    (\<lparr>status = 200, success = True,
                      message = ''Newsletter sent to '' @ string_of_nat successfulSends
                                @ '' subscribers'',
                      payload = Send_report (length subscribers) successfulSends
                                  (length (filter (\<lambda>r. \<not> outcome_success r) results))\<rparr>,
                     record_deliveries now results st, g')))))"

section \<open>Subscriber lifecycle (routes/newsletter.js)\<close>

text \<open>
  The functions of express-validator and the schema's pattern that the handlers call:
  \<open>isEmail\<close>, \<open>normalizeEmail\<close>, and the test of the email pattern at \<open>save\<close>.
\<close>

record validators =
  isEmail :: "string \<Rightarrow> bool"
  normalizeEmail :: "string \<Rightarrow> string"
  emailPattern :: "string \<Rightarrow> bool"

text \<open>
  A subscribe request: the body's \<open>email\<close>, \<open>name\<close> (a string or absent) and
  \<open>interests\<close> (an array of strings or absent), with \<open>req.ip\<close> and the User-Agent header.
\<close>

record subscribe_request =
  rq_email :: string
  rq_name :: "string option"
  rq_interests :: "string list option"
  rq_ip :: "string option"
  rq_userAgent :: "string option"

definition subscribe_validation :: "validators \<Rightarrow> subscribe_request \<Rightarrow> string list" where
  "subscribe_validation vl rq =
     (if isEmail vl (rq_email rq) then [] else [''Please provide a valid email''])
     @ (case rq_name rq of
          None \<Rightarrow> []
        | Some n \<Rightarrow>
            if 2 \<le> length (trim n) \<and> length (trim n) \<le> 100 then []
            else [''Name must be between 2 and 100 characters''])
     @ (case rq_interests rq of
          None \<Rightarrow> []
        | Some ts \<Rightarrow>
            concat (map (\<lambda>t. if t \<in> set interest_enum then []
                              else [''Invalid interest selection'']) ts))"

definition try_again_later :: response where
  "try_again_later =
     \<lparr>status = 500, success = False, message = ''Server error. Please try again later.'',
      payload = No_data\<rparr>"

text \<open>\<open>new Newsletter({...})\<close> with the schema's defaults and \<open>trim\<close> setters.\<close>

definition new_Newsletter ::
  "nat \<Rightarrow> string \<Rightarrow> string option \<Rightarrow> string list \<Rightarrow> string option \<Rightarrow> string option \<Rightarrow> subscriber" where
  "new_Newsletter now e n ts ip ua =
     \<lparr>email = e, name = map_option trim n, interests = ts, subscriptionSource = ''website'',
      isActive = True, subscriptionDate = now, lastEmailSent = None, emailCount = 0,
      ipAddress = map_option trim ip, userAgent = map_option trim ua\<rparr>"

text \<open>
  POST /api/newsletter/subscribe. \<open>name\<close> and \<open>email\<close> are read from the body after
  the validation chain has trimmed and normalised them.
\<close>

definition post_subscribe ::
  "validators \<Rightarrow> mailer \<Rightarrow> nat \<Rightarrow> subscribe_request \<Rightarrow> store \<Rightarrow> gateway
     \<Rightarrow> response \<times> store \<times> gateway" where
  "post_subscribe vl ml now rq st g =
     (let errors = subscribe_validation vl rq in
      if errors \<noteq> [] then (validation_failed errors, st, g)
      else
        (let e = normalizeEmail vl (rq_email rq);
             n = map_option trim (rq_name rq);
             ts = rq_interests rq
         in case findOne (Q_email e) st of
              Some i \<Rightarrow>
                (let existingSubscriber = st ! i in
                 if isActive existingSubscriber
                 then (\<lparr>status = 400, success = False,
                        message = ''This email is already subscribed to our newsletter'',
                        payload = No_data\<rparr>, st, g)
                 else
                   (let reactivated = existingSubscriber
                          \<lparr>isActive := True,
                           name := (if truthy n then map_option trim n
                                    else name existingSubscriber),
                           interests := (case ts of Some xs \<Rightarrow> xs
                                         | None \<Rightarrow> interests existingSubscriber),
                           subscriptionDate := now\<rparr>
                    in case save (emailPattern vl) (Some i) reactivated st of
                         Inl err \<Rightarrow> (try_again_later, st, g)
                       | Inr (saved, st') \<Rightarrow>
                           (case sendNewsletterConfirmation ml e n g of
                              (emailResult, g') \<Rightarrow>
                                (\<lparr>status = 200, success = True,
                                  message = ''Subscription reactivated successfully!'',
                                  payload = Reactivated (email saved) (name saved)
                                              (interests saved)\<rparr>, st', g'))))
            | None \<Rightarrow>
                (let subscriber = new_Newsletter now e n
                       (case ts of Some xs \<Rightarrow> xs | None \<Rightarrow> [''all''])
                       (rq_ip rq) (rq_userAgent rq)
                 in case save (emailPattern vl) None subscriber st of
                      Inl err \<Rightarrow> (try_again_later, st, g)
                    | Inr (saved, st') \<Rightarrow>
                        (case sendNewsletterConfirmation ml e n g of
                           (emailResult, g') \<Rightarrow>
                             (\<lparr>status = 201, success = True,
                               message = ''Successfully subscribed to newsletter!'',
                               payload = Subscribed (email saved) (name saved)
                                           (interests saved) (subscriptionDate saved)\<rparr>,
                              st', g')))))"

text \<open>POST /api/newsletter/unsubscribe.\<close>

definition post_unsubscribe :: "validators \<Rightarrow> string \<Rightarrow> store \<Rightarrow> response \<times> store" where
  "post_unsubscribe vl raw st =
     (if \<not> isEmail vl raw then (validation_failed [''Please provide a valid email''], st)
      else
        (let e = normalizeEmail vl raw in
         case findOne (Q_email e) st of
           None \<Rightarrow>
             (\<lparr>status = 404, success = False,
               message = ''Email not found in our newsletter list'', payload = No_data\<rparr>, st)
         | Some i \<Rightarrow>
             (let subscriber = st ! i in
              if \<not> isActive subscriber
              then (\<lparr>status = 200, success = True,
                     message = ''You have already been unsubscribed'', payload = No_data\<rparr>, st)
              else
                (case save (emailPattern vl) (Some i) (subscriber\<lparr>isActive := False\<rparr>) st of
                   Inl err \<Rightarrow> (try_again_later, st)
                 | Inr (saved, st') \<Rightarrow>
                     (\<lparr>status = 200, success = True,
                       message = ''Successfully unsubscribed from newsletter'',
                       payload = No_data\<rparr>, st')))))"

section \<open>What holds of every collection the handlers leave\<close>

text \<open>
  One document per email (the unique index), and every document passes the schema's
  validators (\<open>save\<close> refuses any other).
\<close>

definition store_ok :: "(string \<Rightarrow> bool) \<Rightarrow> store \<Rightarrow> bool" where
  "store_ok pat st = (distinct (map email st) \<and> list_all (schema_valid pat) st)"

section \<open>Sample data\<close>

text \<open>
  Four subscribers, a transporter whose second \<open>sendMail\<close> fails, a mailer that gets it,
  the mailer of the code with nodemailer as published (its \<open>createTransporter\<close> throws),
  and stand-ins for the validators.
\<close>

definition demo_validators :: validators where
  "demo_validators =
     \<lparr>isEmail = (\<lambda>e. CHR ''@'' \<in> set e), normalizeEmail = (\<lambda>e. e),
      emailPattern = (\<lambda>e. CHR ''@'' \<in> set e)\<rparr>"

definition ann :: subscriber where
  "ann = \<lparr>email = ''a@x.com'', name = Some ''Ann'', interests = [''web-development''],
          subscriptionSource = ''website'', isActive = True, subscriptionDate = 1,
          lastEmailSent = None, emailCount = 0, ipAddress = None, userAgent = None\<rparr>"

definition bob :: subscriber where
  "bob = \<lparr>email = ''b@x.com'', name = None, interests = [''all''],
          subscriptionSource = ''website'', isActive = True, subscriptionDate = 2,
          lastEmailSent = Some 3, emailCount = 4, ipAddress = None, userAgent = None\<rparr>"

definition cat :: subscriber where
  "cat = \<lparr>email = ''c@x.com'', name = Some ''Cat'', interests = [''cyber-security''],
          subscriptionSource = ''website'', isActive = False, subscriptionDate = 3,
          lastEmailSent = None, emailCount = 2, ipAddress = None, userAgent = None\<rparr>"

definition dan :: subscriber where
  "dan = \<lparr>email = ''d@x.com'', name = Some ''Dan'', interests = [''cyber-security''],
          subscriptionSource = ''website'', isActive = True, subscriptionDate = 4,
          lastEmailSent = None, emailCount = 0, ipAddress = None, userAgent = None\<rparr>"

definition second_fails :: transporter where
  "second_fails g m = (if length g = 1 then Inl ''Mailbox unavailable'' else Inr (''id-'' @ mail_to m))"

definition demo_mailer :: mailer where
  "demo_mailer = \<lparr>EMAIL_USER = ''news@cck.example'', FRONTEND_URL = ''https://cck.example'',
                  createTransporter = Inr second_fails\<rparr>"

definition broken_mailer :: mailer where
  "broken_mailer = \<lparr>EMAIL_USER = ''news@cck.example'', FRONTEND_URL = ''https://cck.example'',
                    createTransporter = Inl ''nodemailer.createTransporter is not a function''\<rparr>"

text \<open>Bodies of broadcast requests.\<close>

definition by_cyber_security :: send_body where
  "by_cyber_security =
     \<lparr>rq_subject = ''Security course'', rq_content = ''<p>A new course starts.</p>'',
      rq_targetAudience = Some ''specific-interest'', rq_interest = Some ''cyber-security''\<rparr>"

definition no_tag :: send_body where
  "no_tag =
     \<lparr>rq_subject = ''Security course'', rq_content = ''<p>A new course starts.</p>'',
      rq_targetAudience = Some ''specific-interest'', rq_interest = None\<rparr>"

definition bad_tag :: send_body where
  "bad_tag =
     \<lparr>rq_subject = ''Security course'', rq_content = ''<p>A new course starts.</p>'',
      rq_targetAudience = Some ''specific-interest'', rq_interest = Some ''knitting''\<rparr>"

text \<open>Subscribe requests.\<close>

definition resubscribe_cat :: subscribe_request where
  "resubscribe_cat =
     \<lparr>rq_email = ''c@x.com'', rq_name = None, rq_interests = Some [''robotics-ml''],
      rq_ip = Some ''10.0.0.7'', rq_userAgent = None\<rparr>"

definition subscribe_ann :: subscribe_request where
  "subscribe_ann =
     \<lparr>rq_email = ''a@x.com'', rq_name = Some ''Ann'', rq_interests = Some [''web-development''],
      rq_ip = Some ''10.0.0.7'', rq_userAgent = None\<rparr>"

definition resubscribe_ann_no_interests :: subscribe_request where
  "resubscribe_ann_no_interests =
     \<lparr>rq_email = ''a@x.com'', rq_name = None, rq_interests = Some [],
      rq_ip = Some ''10.0.0.7'', rq_userAgent = None\<rparr>"

section \<open>Auxiliary facts\<close>

lemma trim_length: "length (trim s) \<le> length s"
  unfolding trim_def
  by (metis length_dropWhile_le length_rev order_trans)

lemma dropWhile_rev_prefix:
  assumes "xs = [] \<or> \<not> P (hd xs)"
  shows "dropWhile P (rev (dropWhile P (rev xs))) = rev (dropWhile P (rev xs))"
proof (cases "rev (dropWhile P (rev xs))")
  case Nil
  show ?thesis unfolding Nil by simp
next
  case (Cons y ys)
  have "rev xs = takeWhile P (rev xs) @ dropWhile P (rev xs)" by simp
  then have "xs = rev (dropWhile P (rev xs)) @ rev (takeWhile P (rev xs))"
    by (metis rev_append rev_rev_ident)
  with Cons have xs: "xs = (y # ys) @ rev (takeWhile P (rev xs))" by simp
  then have "xs \<noteq> []" and "hd xs = y" by (metis append_Cons list.distinct(1), metis append_Cons list.sel(1))
  with assms have "\<not> P y" by auto
  with Cons show ?thesis by simp
qed

lemma dropWhile_hd: "dropWhile P s = [] \<or> \<not> P (hd (dropWhile P s))"
  by (metis hd_dropWhile)

lemma trim_idem: "trim (trim s) = trim s"
proof -
  let ?t = "dropWhile is_space s"
  have a: "dropWhile is_space (trim s) = trim s"
    unfolding trim_def by (rule dropWhile_rev_prefix) (rule dropWhile_hd)
  have "trim (trim s) = rev (dropWhile is_space (rev (trim s)))"
    unfolding trim_def [of "trim s"] a ..
  also have "\<dots> = rev (dropWhile is_space (dropWhile is_space (rev ?t)))"
    by (simp add: trim_def)
  also have "\<dots> = trim s"
    by (simp add: trim_def dropWhile_idem)
  finally show ?thesis .
qed

lemma findOne_Some:
  assumes "findOne q st = Some i"
  shows "i < length st \<and> matches q (st ! i)"
proof -
  from assms obtain rest where "filter (\<lambda>i. matches q (st ! i)) [0..<length st] = i # rest"
    by (auto simp: findOne_def split: list.splits)
  then have "i \<in> set (filter (\<lambda>i. matches q (st ! i)) [0..<length st])" by simp
  then show ?thesis by simp
qed

lemma findOne_None: "(findOne q st = None) = (\<forall>r \<in> set st. \<not> matches q r)"
proof -
  have "(findOne q st = None) = (filter (\<lambda>i. matches q (st ! i)) [0..<length st] = [])"
    by (simp add: findOne_def split: list.splits)
  also have "\<dots> = (\<forall>i < length st. \<not> matches q (st ! i))"
    by (auto simp: filter_empty_conv)
  also have "\<dots> = (\<forall>r \<in> set st. \<not> matches q r)"
    by (metis in_set_conv_nth)
  finally show ?thesis .
qed

lemma deliver_gateway:
  "snd (deliver ml t subject content s g) = g @ [newsletter_mail ml subject content s]"
  by (simp add: deliver_def sendMail_def split: sum.splits)

lemma deliver_outcome:
  "fst (deliver ml t subject content s g) =
     (case t g (newsletter_mail ml subject content s) of
        Inr mid \<Rightarrow> Delivered (email s) mid
      | Inl err \<Rightarrow> Undelivered (email s) err)"
  by (simp add: deliver_def sendMail_def split: sum.splits)

lemma deliver_email: "outcome_email (fst (deliver ml t subject content s g)) = email s"
  by (simp add: deliver_outcome split: sum.splits)

lemma upt_0_Suc_map: "[0..<Suc n] = 0 # map Suc [0..<n]"
  by (simp add: upt_conv_Cons map_Suc_upt del: upt_Suc)

lemma send_loop_eq:
  "send_loop ml t subject content ss acc g =
     (acc @ map (\<lambda>i. fst (deliver ml t subject content (ss ! i)
                         (g @ map (newsletter_mail ml subject content) (take i ss))))
              [0..<length ss],
      g @ map (newsletter_mail ml subject content) ss)"
proof (induction ss arbitrary: acc g)
  case Nil
  then show ?case by simp
next
  case (Cons s ss)
  obtain r g' where d: "deliver ml t subject content s g = (r, g')"
    by (cases "deliver ml t subject content s g")
  have g': "g' = g @ [newsletter_mail ml subject content s]"
    using deliver_gateway [of ml t subject content s g] d by simp
  have r: "r = fst (deliver ml t subject content s g)" using d by simp
  show ?case
    unfolding send_loop.simps d prod.case Cons.IH length_Cons upt_0_Suc_map
    by (simp add: g' r comp_def)
qed

lemma interest_enum_nonempty: "t \<in> set interest_enum \<Longrightarrow> t \<noteq> []"
  by (auto simp: interest_enum_def)

lemma getActiveSubscribers_eq: "getActiveSubscribers st = filter isActive st"
  unfolding getActiveSubscribers_def find_docs_def
  by (rule filter_cong) simp_all

lemma getSubscribersByInterest_eq:
  "getSubscribersByInterest t st =
     filter (\<lambda>r. isActive r \<and> (t \<in> set (interests r) \<or> ''all'' \<in> set (interests r))) st"
  unfolding getSubscribersByInterest_def find_docs_def
  by (rule filter_cong) simp_all

lemma select_subscribers_filter: "\<exists>P. select_subscribers st b = filter P st"
  unfolding select_subscribers_def getActiveSubscribers_eq getSubscribersByInterest_eq
  by (cases "rq_interest b") auto

lemma select_subscribers_active: "r \<in> set (select_subscribers st b) \<Longrightarrow> isActive r"
  unfolding select_subscribers_def getActiveSubscribers_eq getSubscribersByInterest_eq
  by (cases "rq_interest b") (auto split: if_splits)

lemma sendNewsletter_Results:
  assumes "sendNewsletter ml subject content subscribers g = (Results rs, g')"
  shows "map outcome_email rs = map email subscribers"
proof -
  from assms obtain t where t: "createTransporter ml = Inr t"
    by (cases "createTransporter ml") (auto simp: sendNewsletter_def)
  with assms have "rs = map (\<lambda>i. fst (deliver ml t subject content (subscribers ! i)
                         (g @ map (newsletter_mail ml subject content) (take i subscribers))))
              [0..<length subscribers]"
    by (simp add: sendNewsletter_def send_loop_eq)
  then show ?thesis
    by (intro nth_equalityI) (simp_all add: deliver_email)
qed

lemma select_subscribers_distinct:
  "distinct (map email st) \<Longrightarrow> distinct (map email (select_subscribers st b))"
  using select_subscribers_filter [of st b] by (auto simp: distinct_map_filter)

lemma record_deliveries_nth:
  "i < length st \<Longrightarrow>
   record_deliveries now rs st ! i =
     (if email (st ! i) \<in> outcome_email ` {r \<in> set rs. outcome_success r}
      then (st ! i)\<lparr>emailCount := emailCount (st ! i) + 1, lastEmailSent := Some now\<rparr>
      else st ! i)"
  by (simp add: record_deliveries_def updateMany_def)

lemma post_newsletter_send_Results:
  assumes "send_validation b = []" and "select_subscribers st b \<noteq> []"
      and "sendNewsletter ml (trim (rq_subject b)) (trim (rq_content b))
             (select_subscribers st b) g = (Results rs, g')"
  shows "fst (snd (post_newsletter_send ml now b st g)) = record_deliveries now rs st"
  using assms by (simp add: post_newsletter_send_def Let_def)

lemma findOne_email_cong:
  assumes "map email st' = map email st"
  shows "findOne (Q_email e) st' = findOne (Q_email e) st"
proof -
  from assms have len: "length st' = length st" by (metis length_map)
  have "filter (\<lambda>i. matches (Q_email e) (st' ! i)) [0..<length st']
          = filter (\<lambda>i. matches (Q_email e) (st ! i)) [0..<length st]"
    unfolding len
  proof (rule filter_cong [OF refl])
    fix i assume "i \<in> set [0..<length st]"
    then have i: "i < length st" by simp
    with len have "email (st' ! i) = map email st' ! i" by simp
    also have "\<dots> = email (st ! i)" using assms i by simp
    finally show "matches (Q_email e) (st' ! i) = matches (Q_email e) (st ! i)" by simp
  qed
  then show ?thesis by (simp add: findOne_def)
qed

lemma map_email_update:
  "i < length st \<Longrightarrow> email r = email (st ! i) \<Longrightarrow> map email (st[i := r]) = map email st"
  by (simp add: map_update list_update_same_conv)

lemma findOne_email_None: "(findOne (Q_email e) st = None) = (e \<notin> email ` set st)"
  by (auto simp: findOne_None)

lemma interests_valid:
  assumes "concat (map (\<lambda>t. if t \<in> set interest_enum then []
                              else [''Invalid interest selection'']) ts) = []"
  shows "list_all (\<lambda>t. t \<in> set interest_enum) ts"
  using assms by (induction ts) (auto split: if_splits)

lemma subscribe_validation_ok:
  assumes "subscribe_validation vl rq = []"
  shows "isEmail vl (rq_email rq)"
    and "\<And>n. rq_name rq = Some n \<Longrightarrow> 2 \<le> length (trim n) \<and> length (trim n) \<le> 100"
    and "\<And>ts. rq_interests rq = Some ts \<Longrightarrow> list_all (\<lambda>t. t \<in> set interest_enum) ts"
proof -
  from assms show "isEmail vl (rq_email rq)"
    by (auto simp: subscribe_validation_def split: if_splits)
  show "2 \<le> length (trim n) \<and> length (trim n) \<le> 100" if "rq_name rq = Some n" for n
    using assms that by (auto simp: subscribe_validation_def split: if_splits)
  show "list_all (\<lambda>t. t \<in> set interest_enum) ts" if "rq_interests rq = Some ts" for ts
    using assms that by (auto simp: subscribe_validation_def intro: interests_valid)
qed

lemma post_subscribe_reactivate:
  assumes valid: "subscribe_validation vl rq = []"
      and found: "findOne (Q_email (normalizeEmail vl (rq_email rq))) st = Some i"
      and inactive: "\<not> isActive (st ! i)"
      and stored: "schema_valid (emailPattern vl) (st ! i)"
  shows "post_subscribe vl ml now rq st g =
           (\<lparr>status = 200, success = True, message = ''Subscription reactivated successfully!'',
             payload = Reactivated (email (st ! i))
                         (case rq_name rq of Some n \<Rightarrow> Some (trim n) | None \<Rightarrow> name (st ! i))
                         (case rq_interests rq of Some xs \<Rightarrow> xs | None \<Rightarrow> interests (st ! i))\<rparr>,
            st[i := (st ! i)\<lparr>isActive := True,
                 name := (case rq_name rq of Some n \<Rightarrow> Some (trim n) | None \<Rightarrow> name (st ! i)),
                 interests := (case rq_interests rq of Some xs \<Rightarrow> xs
                               | None \<Rightarrow> interests (st ! i)),
                 subscriptionDate := now\<rparr>],
            snd (sendNewsletterConfirmation ml (normalizeEmail vl (rq_email rq))
                   (map_option trim (rq_name rq)) g))"
proof -
  let ?n = "map_option trim (rq_name rq)"
  let ?r = "(st ! i)\<lparr>isActive := True,
                 name := (case rq_name rq of Some n \<Rightarrow> Some (trim n) | None \<Rightarrow> name (st ! i)),
                 interests := (case rq_interests rq of Some xs \<Rightarrow> xs
                               | None \<Rightarrow> interests (st ! i)),
                 subscriptionDate := now\<rparr>"
  have nm: "(if truthy ?n then map_option trim ?n else name (st ! i))
              = (case rq_name rq of Some n \<Rightarrow> Some (trim n) | None \<Rightarrow> name (st ! i))"
  proof (cases "rq_name rq")
    case None
    then show ?thesis by (simp add: truthy_def)
  next
    case (Some n)
    with subscribe_validation_ok(2) [OF valid] have "2 \<le> length (trim n)" by simp
    then have "trim n \<noteq> []" by auto
    with Some show ?thesis by (simp add: truthy_def trim_idem)
  qed
  have ok: "schema_valid (emailPattern vl) ?r"
  proof -
    have "case name ?r of None \<Rightarrow> True | Some n \<Rightarrow> length n \<le> 100"
      using stored subscribe_validation_ok(2) [OF valid]
      by (cases "rq_name rq") (auto simp: schema_valid_def)
    moreover have "list_all (\<lambda>t. t \<in> set interest_enum) (interests ?r)"
      using stored subscribe_validation_ok(3) [OF valid]
      by (cases "rq_interests rq") (auto simp: schema_valid_def)
    ultimately show ?thesis using stored by (simp add: schema_valid_def)
  qed
  have sv: "save (emailPattern vl) (Some i) ?r st = Inr (?r, st[i := ?r])"
    using ok by (simp add: save_def pre_save_def Let_def)
  show ?thesis
    unfolding post_subscribe_def Let_def
    using valid found inactive sv nm
    by (simp add: case_prod_beta)
qed

lemma post_unsubscribe_None:
  assumes "isEmail vl raw" and "findOne (Q_email (normalizeEmail vl raw)) st = None"
  shows "post_unsubscribe vl raw st =
           (\<lparr>status = 404, success = False,
             message = ''Email not found in our newsletter list'', payload = No_data\<rparr>, st)"
  using assms by (simp add: post_unsubscribe_def)

lemma post_unsubscribe_inactive:
  assumes "isEmail vl raw" and "findOne (Q_email (normalizeEmail vl raw)) st = Some i"
      and "\<not> isActive (st ! i)"
  shows "post_unsubscribe vl raw st =
           (\<lparr>status = 200, success = True,
             message = ''You have already been unsubscribed'', payload = No_data\<rparr>, st)"
  using assms by (simp add: post_unsubscribe_def)

lemma post_unsubscribe_active:
  assumes "isEmail vl raw" and "findOne (Q_email (normalizeEmail vl raw)) st = Some i"
      and "isActive (st ! i)" and "schema_valid (emailPattern vl) (st ! i)"
  shows "post_unsubscribe vl raw st =
           (\<lparr>status = 200, success = True,
             message = ''Successfully unsubscribed from newsletter'', payload = No_data\<rparr>,
            st[i := (st ! i)\<lparr>isActive := False\<rparr>])"
proof -
  from assms(4) have "schema_valid (emailPattern vl) ((st ! i)\<lparr>isActive := False\<rparr>)"
    by (simp add: schema_valid_def)
  then have "save (emailPattern vl) (Some i) ((st ! i)\<lparr>isActive := False\<rparr>) st
               = Inr ((st ! i)\<lparr>isActive := False\<rparr>, st[i := (st ! i)\<lparr>isActive := False\<rparr>])"
    by (simp add: save_def pre_save_def Let_def)
  with assms(1-3) show ?thesis by (simp add: post_unsubscribe_def)
qed

lemma post_unsubscribe_status_404:
  assumes "isEmail vl raw"
  shows "(status (fst (post_unsubscribe vl raw st)) = 404)
           = (findOne (Q_email (normalizeEmail vl raw)) st = None)"
  using assms
  by (auto simp: post_unsubscribe_def try_again_later_def Let_def
      split: option.splits sum.splits)

lemma funpow_fixed: "f x = x \<Longrightarrow> (f ^^ n) x = x"
  by (induction n) simp_all

text \<open>
  The empty collection satisfies \<open>store_ok\<close>, and each handler keeps it: a collection
  that the handlers have built from the empty one has one document per email, each passing
  the schema's validators.
\<close>

lemma store_ok_empty: "store_ok pat []"
  by (simp add: store_ok_def)

lemma pre_save_valid: "schema_valid pat r \<Longrightarrow> schema_valid pat (pre_save isNew r)"
  by (simp add: pre_save_def schema_valid_def interest_enum_def)

lemma pre_save_email: "email (pre_save isNew r) = email r"
  by (simp add: pre_save_def)

lemma save_new_ok:
  assumes "save pat None r st = Inr (r', st')" and "store_ok pat st"
  shows "store_ok pat st'"
proof -
  from assms(1) have v: "schema_valid pat r"
    by (auto simp: save_def split: if_splits)
  with assms(1) have r': "r' = pre_save True r" and st': "st' = st @ [r']"
    and fresh: "email r' \<notin> set (map email st)"
    by (auto simp: save_def Let_def split: if_splits)
  from v r' have "schema_valid pat r'" by (simp add: pre_save_valid)
  with assms(2) st' fresh show ?thesis by (simp add: store_ok_def)
qed

lemma save_existing_ok:
  assumes "save pat (Some i) r st = Inr (r', st')" and "store_ok pat st"
      and "i < length st" and "email r = email (st ! i)"
  shows "store_ok pat st'"
proof -
  from assms(1) have v: "schema_valid pat r"
    by (auto simp: save_def split: if_splits)
  with assms(1) have r': "r' = pre_save False r" and st': "st' = st[i := r']"
    by (auto simp: save_def Let_def split: if_splits)
  from v r' have ok: "schema_valid pat r'" by (simp add: pre_save_valid)
  from r' assms(4) have "email r' = email (st ! i)" by (simp add: pre_save_email)
  with assms(3) have "map email st' = map email st" unfolding st' by (rule map_email_update)
  moreover have "list_all (schema_valid pat) st'"
    unfolding st' using assms(2) ok
    by (auto simp: store_ok_def list_all_iff dest: set_update_subset_insert [THEN subsetD])
  ultimately show ?thesis using assms(2) by (simp add: store_ok_def)
qed

lemma post_subscribe_store_ok:
  assumes "store_ok (emailPattern vl) st"
  shows "store_ok (emailPattern vl) (fst (snd (post_subscribe vl ml now rq st g)))"
proof (cases "subscribe_validation vl rq = []")
  case False
  with assms show ?thesis by (simp add: post_subscribe_def)
next
  case True
  let ?e = "normalizeEmail vl (rq_email rq)"
  show ?thesis
  proof (cases "findOne (Q_email ?e) st")
    case None
    with True assms show ?thesis
      by (auto simp: post_subscribe_def Let_def case_prod_beta split: sum.splits
          dest: save_new_ok)
  next
    case (Some i)
    from findOne_Some [OF Some] have i: "i < length st" by simp
    with True Some assms show ?thesis
      by (auto simp: post_subscribe_def Let_def case_prod_beta split: sum.splits
          dest!: save_existing_ok)
  qed
qed

lemma post_unsubscribe_store_ok:
  assumes "store_ok (emailPattern vl) st"
  shows "store_ok (emailPattern vl) (snd (post_unsubscribe vl raw st))"
proof (cases "findOne (Q_email (normalizeEmail vl raw)) st")
  case None
  with assms show ?thesis by (simp add: post_unsubscribe_def)
next
  case (Some i)
  from findOne_Some [OF Some] have i: "i < length st" by simp
  with Some assms show ?thesis
    by (auto simp: post_unsubscribe_def Let_def split: sum.splits dest!: save_existing_ok)
qed

lemma record_deliveries_store_ok:
  assumes "store_ok pat st"
  shows "store_ok pat (record_deliveries now rs st)"
proof -
  have "map email (record_deliveries now rs st) = map email st"
    by (simp add: record_deliveries_def updateMany_def)
  moreover have "list_all (schema_valid pat) (record_deliveries now rs st)"
    using assms
    by (auto simp: record_deliveries_def updateMany_def store_ok_def list_all_iff
        schema_valid_def)
  ultimately show ?thesis using assms by (simp add: store_ok_def)
qed

lemma post_newsletter_send_store_ok:
  assumes "store_ok pat st"
  shows "store_ok pat (fst (snd (post_newsletter_send ml now b st g)))"
  using assms
  by (auto simp: post_newsletter_send_def Let_def record_deliveries_store_ok
      split: prod.splits send_result.splits)

section \<open>The broadcast dispatcher\<close>

text \<open>
  The loop of \<open>sendNewsletter\<close>, for a mailer whose \<open>createTransporter\<close> gives a
  transporter \<open>t\<close>: for every list of subscribers, whatever \<open>t\<close> answers to each
  message, every subscriber's message is handed to \<open>sendMail\<close>, in the order of the list
  and whether or not earlier sends failed (the gateway has received exactly these messages
  when the function returns); the array returned has one entry per subscriber, in the order
  of the list; the entry of a subscriber is \<open>{email, success: true, messageId}\<close> when
  the transporter answered its message with an id, and \<open>{email, success: false, error}\<close>
  when it threw.
\<close>

theorem sendNewsletter_outcomes:
  assumes "createTransporter ml = Inr t"
  shows "\<exists>rs. sendNewsletter ml subject content subscribers g
                = (Results rs, g @ map (newsletter_mail ml subject content) subscribers)
            \<and> length rs = length subscribers
            \<and> map outcome_email rs = map email subscribers
            \<and> (\<forall>i<length subscribers.
                  rs ! i =
                    (case t (g @ map (newsletter_mail ml subject content) (take i subscribers))
                            (newsletter_mail ml subject content (subscribers ! i)) of
                       Inr mid \<Rightarrow> Delivered (email (subscribers ! i)) mid
                     | Inl err \<Rightarrow> Undelivered (email (subscribers ! i)) err))"
proof -
  let ?rs = "map (\<lambda>i. fst (deliver ml t subject content (subscribers ! i)
                         (g @ map (newsletter_mail ml subject content) (take i subscribers))))
              [0..<length subscribers]"
  have run: "sendNewsletter ml subject content subscribers g
               = (Results ?rs, g @ map (newsletter_mail ml subject content) subscribers)"
    by (simp add: sendNewsletter_def assms send_loop_eq)
  have len: "length ?rs = length subscribers" by simp
  have emails: "map outcome_email ?rs = map email subscribers"
    by (rule nth_equalityI) (simp_all add: deliver_email)
  have each: "\<forall>i<length subscribers.
                ?rs ! i =
                  (case t (g @ map (newsletter_mail ml subject content) (take i subscribers))
                          (newsletter_mail ml subject content (subscribers ! i)) of
                     Inr mid \<Rightarrow> Delivered (email (subscribers ! i)) mid
                   | Inl err \<Rightarrow> Undelivered (email (subscribers ! i)) err)"
    by (simp add: deliver_outcome split: sum.splits)
  from run len emails each show ?thesis by blast
qed

theorem sendNewsletter_outcomes_witness:
  "createTransporter demo_mailer = Inr second_fails
   \<and> fst (sendNewsletter demo_mailer ''Hello all'' ''<p>News</p>'' [ann, bob, dan] [])
       = Results [Delivered ''a@x.com'' ''id-a@x.com'',
                  Undelivered ''b@x.com'' ''Mailbox unavailable'',
                  Delivered ''d@x.com'' ''id-d@x.com'']
   \<and> map mail_to (snd (sendNewsletter demo_mailer ''Hello all'' ''<p>News</p>'' [ann, bob, dan] []))
       = [''a@x.com'', ''b@x.com'', ''d@x.com'']"
proof -
  have t: "createTransporter demo_mailer = Inr second_fails" by (simp add: demo_mailer_def)
  from sendNewsletter_outcomes [OF t, of "''Hello all''" "''<p>News</p>''" "[ann, bob, dan]" "[]"]
  obtain rs where
    run: "sendNewsletter demo_mailer ''Hello all'' ''<p>News</p>'' [ann, bob, dan] []
            = (Results rs, [] @ map (newsletter_mail demo_mailer ''Hello all'' ''<p>News</p>'') [ann, bob, dan])"
    and len: "length rs = length [ann, bob, dan]"
    and each: "\<forall>i<length [ann, bob, dan].
                 rs ! i = (case second_fails ([] @ map (newsletter_mail demo_mailer ''Hello all'' ''<p>News</p>'') (take i [ann, bob, dan]))
                            (newsletter_mail demo_mailer ''Hello all'' ''<p>News</p>'' ([ann, bob, dan] ! i)) of
                       Inr mid \<Rightarrow> Delivered (email ([ann, bob, dan] ! i)) mid
                     | Inl err \<Rightarrow> Undelivered (email ([ann, bob, dan] ! i)) err)"
    by blast
  from each have r0: "rs ! 0 = Delivered ''a@x.com'' ''id-a@x.com''"
    by (simp add: second_fails_def newsletter_mail_def ann_def)
  from each have "rs ! Suc 0 = Undelivered ''b@x.com'' ''Mailbox unavailable''"
    by (simp add: second_fails_def newsletter_mail_def bob_def)
  moreover from each have "rs ! Suc (Suc 0) = Delivered ''d@x.com'' ''id-d@x.com''"
    by (simp add: second_fails_def newsletter_mail_def dan_def)
  moreover from len obtain a b c where "rs = [a, b, c]"
    by (cases rs; cases "tl rs"; cases "tl (tl rs)") auto
  ultimately have rs: "rs = [Delivered ''a@x.com'' ''id-a@x.com'',
                  Undelivered ''b@x.com'' ''Mailbox unavailable'',
                  Delivered ''d@x.com'' ''id-d@x.com'']"
    using r0 by simp
  show ?thesis
    using t run rs by (simp add: newsletter_mail_def ann_def bob_def dan_def)
qed

text \<open>
  C1 fails on the code. \<open>createTransporter\<close> calls \<open>nodemailer.createTransporter\<close>,
  where nodemailer's factory is \<open>createTransport\<close>: the call throws a TypeError before
  the loop is entered. For three recipients, \<open>sendNewsletter\<close> then hands no message to
  the gateway, for any of them, and returns the object \<open>{success: false, error}\<close> of its
  outer \<open>catch\<close>, where the claim has one delivery attempt and one outcome per recipient.
\<close>

theorem sendNewsletter_not_a_list:
  "sendNewsletter broken_mailer ''Hello all'' ''<p>News</p>'' [ann, bob, dan] []
     = (Send_failed ''nodemailer.createTransporter is not a function'', [])"
  by (simp add: sendNewsletter_def broken_mailer_def)


text \<open>
  The empty list of subscribers: \<open>sendNewsletter\<close> hands no message to the gateway,
  and a mailer whose \<open>createTransporter\<close> gives a transporter returns the empty array.
\<close>

theorem sendNewsletter_empty:
  "snd (sendNewsletter ml subject content [] g) = g
   \<and> (createTransporter ml = Inr t \<longrightarrow> sendNewsletter ml subject content [] g = (Results [], g))"
  by (simp add: sendNewsletter_def split: sum.splits)

theorem sendNewsletter_empty_witness:
  "snd (sendNewsletter demo_mailer ''Hello all'' ''<p>News</p>'' [] []) = []
   \<and> createTransporter demo_mailer = Inr second_fails
   \<and> sendNewsletter demo_mailer ''Hello all'' ''<p>News</p>'' [] [] = (Results [], [])"
  using sendNewsletter_empty [of demo_mailer "''Hello all''" "''<p>News</p>''" "[]" second_fails]
  by (simp add: demo_mailer_def)

text \<open>
  C9 fails on the code, by the same defect as C1. \<open>createTransporter\<close> is called before
  the loop also when there is no subscriber, and it throws: for the empty list no message
  reaches the gateway, but what \<open>sendNewsletter\<close> returns is the object
  \<open>{success: false, error}\<close> of its outer \<open>catch\<close>, where the claim has an empty list of
  outcomes.
\<close>

theorem sendNewsletter_empty_not_a_list:
  "sendNewsletter broken_mailer ''Hello all'' ''<p>News</p>'' [] []
     = (Send_failed ''nodemailer.createTransporter is not a function'', [])"
  by (simp add: sendNewsletter_def broken_mailer_def)

section \<open>The audience of a broadcast\<close>

text \<open>
  C4. For every collection and every tag of the fixed vocabulary, a broadcast request with
  \<open>targetAudience = 'specific-interest'\<close> and that tag selects exactly the documents
  with \<open>isActive = true\<close> whose \<open>interests\<close> contain the tag or contain \<open>'all'\<close>, each
  of them and in the order of the collection; and whatever the request, no document with
  \<open>isActive = false\<close> is among the selected subscribers.
\<close>

theorem select_by_interest:
  assumes "t \<in> set interest_enum"
      and "rq_targetAudience b = Some ''specific-interest''"
      and "rq_interest b = Some t"
  shows "select_subscribers st b =
           filter (\<lambda>r. isActive r \<and> (t \<in> set (interests r) \<or> ''all'' \<in> set (interests r))) st
         \<and> set (select_subscribers st b) =
             {r \<in> set st. isActive r \<and> (t \<in> set (interests r) \<or> ''all'' \<in> set (interests r))}
         \<and> (\<forall>b'. \<forall>r \<in> set (select_subscribers st b'). isActive r)"
proof -
  from assms(1) have "t \<noteq> []" by (rule interest_enum_nonempty)
  with assms(2,3) have sel: "select_subscribers st b = getSubscribersByInterest t st"
    by (simp add: select_subscribers_def truthy_def)
  then have "select_subscribers st b =
           filter (\<lambda>r. isActive r \<and> (t \<in> set (interests r) \<or> ''all'' \<in> set (interests r))) st"
    by (simp add: getSubscribersByInterest_eq)
  moreover from this have "set (select_subscribers st b) =
             {r \<in> set st. isActive r \<and> (t \<in> set (interests r) \<or> ''all'' \<in> set (interests r))}"
    by simp
  moreover have "\<forall>b'. \<forall>r \<in> set (select_subscribers st b'). isActive r"
    using select_subscribers_active by blast
  ultimately show ?thesis by blast
qed

theorem select_by_interest_witness:
  "''cyber-security'' \<in> set interest_enum
   \<and> rq_targetAudience by_cyber_security = Some ''specific-interest''
   \<and> rq_interest by_cyber_security = Some ''cyber-security''
   \<and> select_subscribers [ann, bob, cat, dan] by_cyber_security = [bob, dan]
   \<and> isActive bob \<and> isActive dan \<and> \<not> isActive cat"
proof -
  have a: "''cyber-security'' \<in> set interest_enum" by (simp add: interest_enum_def)
  have b: "rq_targetAudience by_cyber_security = Some ''specific-interest''"
    by (simp add: by_cyber_security_def)
  have c: "rq_interest by_cyber_security = Some ''cyber-security''"
    by (simp add: by_cyber_security_def)
  from select_by_interest [OF a b c, of "[ann, bob, cat, dan]"]
  have "select_subscribers [ann, bob, cat, dan] by_cyber_security = [bob, dan]"
    by (simp add: ann_def bob_def cat_def dan_def)
  with a b c show ?thesis by (simp add: bob_def cat_def dan_def)
qed

text \<open>
  C2, as amended. A broadcast request whose \<open>interest\<close> is outside the fixed vocabulary
  is refused with 400 "Validation failed" (the error "Invalid interest"); no audience is
  resolved, nothing is sent and the collection is unchanged. A request with
  \<open>targetAudience = 'specific-interest'\<close> and no \<open>interest\<close> is not refused: its
  audience is the active subscribers.
\<close>

theorem invalid_interest_rejected:
  "(rq_interest b = Some t \<and> t \<notin> set interest_enum \<longrightarrow>
      ''Invalid interest'' \<in> set (send_validation b)
      \<and> post_newsletter_send ml now b st g = (validation_failed (send_validation b), st, g))
   \<and> (rq_targetAudience b = Some ''specific-interest'' \<and> rq_interest b = None \<longrightarrow>
        select_subscribers st b = getActiveSubscribers st)"
proof -
  have "''Invalid interest'' \<in> set (send_validation b)
        \<and> post_newsletter_send ml now b st g = (validation_failed (send_validation b), st, g)"
    if "rq_interest b = Some t" "t \<notin> set interest_enum"
  proof -
    from that have v: "''Invalid interest'' \<in> set (send_validation b)"
      by (simp add: send_validation_def)
    then have "send_validation b \<noteq> []" by auto
    then have "post_newsletter_send ml now b st g = (validation_failed (send_validation b), st, g)"
      by (simp add: post_newsletter_send_def)
    with v show ?thesis by simp
  qed
  moreover have "select_subscribers st b = getActiveSubscribers st" if "rq_interest b = None"
    using that by (simp add: select_subscribers_def)
  ultimately show ?thesis by blast
qed

theorem invalid_interest_rejected_witness:
  "rq_interest bad_tag = Some ''knitting'' \<and> ''knitting'' \<notin> set interest_enum
   \<and> status (fst (post_newsletter_send demo_mailer 9 bad_tag [ann, bob, cat, dan] [])) = 400
   \<and> snd (post_newsletter_send demo_mailer 9 bad_tag [ann, bob, cat, dan] []) = ([ann, bob, cat, dan], [])
   \<and> rq_targetAudience no_tag = Some ''specific-interest'' \<and> rq_interest no_tag = None
   \<and> select_subscribers [ann, bob, cat, dan] no_tag = [ann, bob, dan]"
proof -
  have a: "rq_interest bad_tag = Some ''knitting'' \<and> ''knitting'' \<notin> set interest_enum"
    by (simp add: bad_tag_def interest_enum_def)
  have b: "rq_targetAudience no_tag = Some ''specific-interest'' \<and> rq_interest no_tag = None"
    by (simp add: no_tag_def)
  from invalid_interest_rejected [of bad_tag "''knitting''" demo_mailer 9 "[ann, bob, cat, dan]" "[]"] a
  have c: "post_newsletter_send demo_mailer 9 bad_tag [ann, bob, cat, dan] []
             = (validation_failed (send_validation bad_tag), [ann, bob, cat, dan], [])"
    by blast
  from invalid_interest_rejected [of no_tag "''knitting''" demo_mailer 9 "[ann, bob, cat, dan]" "[]"] b
  have "select_subscribers [ann, bob, cat, dan] no_tag = getActiveSubscribers [ann, bob, cat, dan]"
    by blast
  then have d: "select_subscribers [ann, bob, cat, dan] no_tag = [ann, bob, dan]"
    by (simp add: getActiveSubscribers_eq ann_def bob_def cat_def dan_def)
  from a b c d show ?thesis by (simp add: validation_failed_def)
qed

text \<open>
  C2 as stated fails for \<open>specific-interest\<close> without a tag: the request passes validation,
  is answered 200, and the newsletter goes to every active subscriber.
\<close>

theorem no_tag_falls_back:
  "send_validation no_tag = []
   \<and> status (fst (post_newsletter_send demo_mailer 9 no_tag [ann, bob, cat, dan] [])) = 200
   \<and> map mail_to (snd (snd (post_newsletter_send demo_mailer 9 no_tag [ann, bob, cat, dan] [])))
       = [''a@x.com'', ''b@x.com'', ''d@x.com'']"
  by (simp add: post_newsletter_send_def send_validation_def no_tag_def trim_def is_space_def
      select_subscribers_def getActiveSubscribers_eq ann_def bob_def cat_def dan_def
      sendNewsletter_def demo_mailer_def deliver_def sendMail_def second_fails_def
      newsletter_mail_def Let_def)

section \<open>The broadcast handler: delivery accounting and the failure of the transporter\<close>

text \<open>
  C5. Let the collection have one document per email (the unique index), and let a broadcast
  request pass validation, select some subscribers, and \<open>sendNewsletter\<close> return the
  array \<open>rs\<close> for them. Then the collection the handler leaves is
  \<open>record_deliveries now rs\<close> of the old one, it has the same documents at the same
  positions, and for every document: if its outcome in \<open>rs\<close> has \<open>success = true\<close>,
  its \<open>emailCount\<close> is one more and its \<open>lastEmailSent\<close> is the time of the
  request, the other fields being as before; if its outcome has \<open>success = false\<close>, or
  no outcome of \<open>rs\<close> is for its email, the document is unchanged in every field.
\<close>

theorem record_deliveries_frame:
  assumes uniq: "distinct (map email st)"
      and valid: "send_validation b = []"
      and some: "select_subscribers st b \<noteq> []"
      and disp: "sendNewsletter ml (trim (rq_subject b)) (trim (rq_content b))
                   (select_subscribers st b) g = (Results rs, g')"
  shows "fst (snd (post_newsletter_send ml now b st g)) = record_deliveries now rs st
         \<and> length (record_deliveries now rs st) = length st
         \<and> (\<forall>i<length st.
              (\<forall>r \<in> set rs. outcome_email r = email (st ! i) \<longrightarrow>
                 record_deliveries now rs st ! i =
                   (if outcome_success r
                    then (st ! i)\<lparr>emailCount := emailCount (st ! i) + 1,
                                  lastEmailSent := Some now\<rparr>
                    else st ! i))
              \<and> (email (st ! i) \<notin> outcome_email ` set rs \<longrightarrow>
                   record_deliveries now rs st ! i = st ! i))"
proof -
  have route: "fst (snd (post_newsletter_send ml now b st g)) = record_deliveries now rs st"
    using valid some disp by (rule post_newsletter_send_Results)
  have len: "length (record_deliveries now rs st) = length st"
    by (simp add: record_deliveries_def updateMany_def)
  have "map outcome_email rs = map email (select_subscribers st b)"
    using disp by (rule sendNewsletter_Results)
  with uniq have "distinct (map outcome_email rs)"
    by (simp add: select_subscribers_distinct)
  then have inj: "inj_on outcome_email (set rs)"
    by (simp add: distinct_map)
  have each: "record_deliveries now rs st ! i =
                (if outcome_success r
                 then (st ! i)\<lparr>emailCount := emailCount (st ! i) + 1, lastEmailSent := Some now\<rparr>
                 else st ! i)"
    if i: "i < length st" and r: "r \<in> set rs" and e: "outcome_email r = email (st ! i)" for i r
  proof (cases "outcome_success r")
    case True
    with r e have "email (st ! i) \<in> outcome_email ` {r \<in> set rs. outcome_success r}"
      by force
    with i True show ?thesis by (simp add: record_deliveries_nth)
  next
    case False
    have "email (st ! i) \<notin> outcome_email ` {r \<in> set rs. outcome_success r}"
    proof
      assume "email (st ! i) \<in> outcome_email ` {r \<in> set rs. outcome_success r}"
      then obtain r' where r': "r' \<in> set rs" "outcome_success r'"
        "outcome_email r' = outcome_email r"
        using e by auto
      with inj r have "r' = r" by (auto dest: inj_onD)
      with r'(2) False show False by simp
    qed
    with i False show ?thesis by (simp add: record_deliveries_nth)
  qed
  have none: "record_deliveries now rs st ! i = st ! i"
    if i: "i < length st" and e: "email (st ! i) \<notin> outcome_email ` set rs" for i
  proof -
    from e have "email (st ! i) \<notin> outcome_email ` {r \<in> set rs. outcome_success r}"
      by auto
    with i show ?thesis by (simp add: record_deliveries_nth)
  qed
  from route len each none show ?thesis by blast
qed

theorem record_deliveries_frame_witness:
  "distinct (map email [ann, bob, cat, dan])
   \<and> send_validation no_tag = []
   \<and> select_subscribers [ann, bob, cat, dan] no_tag = [ann, bob, dan]
   \<and> fst (sendNewsletter demo_mailer (trim (rq_subject no_tag)) (trim (rq_content no_tag))
            (select_subscribers [ann, bob, cat, dan] no_tag) [])
       = Results [Delivered ''a@x.com'' ''id-a@x.com'',
                  Undelivered ''b@x.com'' ''Mailbox unavailable'',
                  Delivered ''d@x.com'' ''id-d@x.com'']
   \<and> fst (snd (post_newsletter_send demo_mailer 9 no_tag [ann, bob, cat, dan] []))
       = [ann\<lparr>emailCount := 1, lastEmailSent := Some 9\<rparr>, bob, cat,
          dan\<lparr>emailCount := 1, lastEmailSent := Some 9\<rparr>]"
proof -
  let ?st = "[ann, bob, cat, dan]"
  let ?rs = "[Delivered ''a@x.com'' ''id-a@x.com'',
              Undelivered ''b@x.com'' ''Mailbox unavailable'',
              Delivered ''d@x.com'' ''id-d@x.com'']"
  have uniq: "distinct (map email ?st)"
    by (simp add: ann_def bob_def cat_def dan_def)
  have valid: "send_validation no_tag = []"
    by (simp add: send_validation_def no_tag_def trim_def is_space_def)
  have sel: "select_subscribers ?st no_tag = [ann, bob, dan]"
    by (simp add: select_subscribers_def no_tag_def getActiveSubscribers_eq
        ann_def bob_def cat_def dan_def)
  then have some: "select_subscribers ?st no_tag \<noteq> []" by simp
  have d1: "fst (sendNewsletter demo_mailer (trim (rq_subject no_tag)) (trim (rq_content no_tag))
                (select_subscribers ?st no_tag) []) = Results ?rs"
    unfolding sel
    by (simp add: sendNewsletter_def demo_mailer_def deliver_def sendMail_def second_fails_def
        newsletter_mail_def ann_def bob_def dan_def)
  then have disp: "sendNewsletter demo_mailer (trim (rq_subject no_tag)) (trim (rq_content no_tag))
                (select_subscribers ?st no_tag) []
              = (Results ?rs,
                 snd (sendNewsletter demo_mailer (trim (rq_subject no_tag))
                        (trim (rq_content no_tag)) (select_subscribers ?st no_tag) []))"
    by (metis prod.collapse)
  from record_deliveries_frame [OF uniq valid some disp, of 9]
  have "fst (snd (post_newsletter_send demo_mailer 9 no_tag ?st [])) = record_deliveries 9 ?rs ?st"
    by blast
  also have "\<dots> = [ann\<lparr>emailCount := 1, lastEmailSent := Some 9\<rparr>, bob, cat,
          dan\<lparr>emailCount := 1, lastEmailSent := Some 9\<rparr>]"
    by (simp add: record_deliveries_def updateMany_def ann_def bob_def cat_def dan_def)
  finally show ?thesis using uniq valid sel d1 by simp
qed

text \<open>
  C10. When \<open>createTransporter\<close> throws, \<open>sendNewsletter\<close> returns the single object
  \<open>{success: false, error}\<close> with the error's message, whatever the subscribers, and no
  message reaches the gateway; a broadcast request that passed validation and selected at
  least one subscriber is then answered 500 "Server error", with the collection unchanged,
  instead of a report of outcomes.
\<close>

theorem transporter_failure_is_server_error:
  assumes "createTransporter ml = Inl err"
  shows "sendNewsletter ml subject content subscribers g = (Send_failed err, g)
         \<and> (send_validation b = [] \<and> select_subscribers st b \<noteq> [] \<longrightarrow>
              post_newsletter_send ml now b st g = (server_error, st, g))"
  using assms by (simp add: sendNewsletter_def post_newsletter_send_def Let_def)

theorem transporter_failure_is_server_error_witness:
  "createTransporter broken_mailer = Inl ''nodemailer.createTransporter is not a function''
   \<and> sendNewsletter broken_mailer ''Security course'' ''<p>A new course starts.</p>'' [ann, bob, dan] []
       = (Send_failed ''nodemailer.createTransporter is not a function'', [])
   \<and> send_validation no_tag = []
   \<and> select_subscribers [ann, bob, cat, dan] no_tag = [ann, bob, dan]
   \<and> post_newsletter_send broken_mailer 9 no_tag [ann, bob, cat, dan] []
       = (\<lparr>status = 500, success = False, message = ''Server error'', payload = No_data\<rparr>,
          [ann, bob, cat, dan], [])"
proof -
  have a: "createTransporter broken_mailer = Inl ''nodemailer.createTransporter is not a function''"
    by (simp add: broken_mailer_def)
  have valid: "send_validation no_tag = []"
    by (simp add: send_validation_def no_tag_def trim_def is_space_def)
  have sel: "select_subscribers [ann, bob, cat, dan] no_tag = [ann, bob, dan]"
    by (simp add: select_subscribers_def no_tag_def getActiveSubscribers_eq
        ann_def bob_def cat_def dan_def)
  from transporter_failure_is_server_error [OF a, of "''Security course''"
      "''<p>A new course starts.</p>''" "[ann, bob, dan]" "[]" no_tag "[ann, bob, cat, dan]" 9]
    a valid sel
  show ?thesis by (simp add: server_error_def)
qed

section \<open>The subscriber lifecycle\<close>

text \<open>
  C6. Let a subscribe request pass validation, let the collection hold a document for its
  email, found at position \<open>i\<close>, with \<open>isActive = false\<close>, and let that document
  satisfy the schema, as every saved document does. Then the request is answered 200
  "Subscription reactivated successfully!" with the reactivated document's email, name and
  interests, and the collection differs from the old one only at position \<open>i\<close>, where
  the document has \<open>isActive = true\<close>, the request's name (trimmed, as the validation
  chain leaves it) if one was supplied and its old name otherwise, the request's interests
  if they were supplied and its old interests otherwise, and the time of the request as
  \<open>subscriptionDate\<close>. No document is added: the collection has the same length and
  the same emails at the same positions.
\<close>

theorem subscribe_reactivates_in_place:
  assumes valid: "subscribe_validation vl rq = []"
      and found: "findOne (Q_email (normalizeEmail vl (rq_email rq))) st = Some i"
      and inactive: "\<not> isActive (st ! i)"
      and stored: "schema_valid (emailPattern vl) (st ! i)"
  shows "let r' = (st ! i)
            \<lparr>isActive := True,
             name := (case rq_name rq of Some n \<Rightarrow> Some (trim n) | None \<Rightarrow> name (st ! i)),
             interests := (case rq_interests rq of Some xs \<Rightarrow> xs
                           | None \<Rightarrow> interests (st ! i)),
             subscriptionDate := now\<rparr>
         in (\<exists>g'. post_subscribe vl ml now rq st g =
                     (\<lparr>status = 200, success = True,
                       message = ''Subscription reactivated successfully!'',
                       payload = Reactivated (email r') (name r') (interests r')\<rparr>,
                      st[i := r'], g'))
            \<and> i < length st
            \<and> email r' = normalizeEmail vl (rq_email rq)
            \<and> length (st[i := r']) = length st
            \<and> map email (st[i := r']) = map email st"
proof -
  from findOne_Some [OF found] have i: "i < length st"
    and e: "email (st ! i) = normalizeEmail vl (rq_email rq)" by simp_all
  have "map email (st[i := (st ! i)
            \<lparr>isActive := True,
             name := (case rq_name rq of Some n \<Rightarrow> Some (trim n) | None \<Rightarrow> name (st ! i)),
             interests := (case rq_interests rq of Some xs \<Rightarrow> xs
                           | None \<Rightarrow> interests (st ! i)),
             subscriptionDate := now\<rparr>]) = map email st"
    using i by (intro map_email_update) simp_all
  with post_subscribe_reactivate [OF valid found inactive stored, of ml now g] i e
  show ?thesis by (simp add: Let_def)
qed

theorem subscribe_reactivates_in_place_witness:
  "subscribe_validation demo_validators resubscribe_cat = []
   \<and> findOne (Q_email (normalizeEmail demo_validators (rq_email resubscribe_cat))) [ann, cat] = Some 1
   \<and> \<not> isActive ([ann, cat] ! 1)
   \<and> schema_valid (emailPattern demo_validators) ([ann, cat] ! 1)
   \<and> fst (post_subscribe demo_validators demo_mailer 9 resubscribe_cat [ann, cat] [])
       = \<lparr>status = 200, success = True, message = ''Subscription reactivated successfully!'',
          payload = Reactivated ''c@x.com'' (Some ''Cat'') [''robotics-ml'']\<rparr>
   \<and> fst (snd (post_subscribe demo_validators demo_mailer 9 resubscribe_cat [ann, cat] []))
       = [ann, cat\<lparr>isActive := True, interests := [''robotics-ml''], subscriptionDate := 9\<rparr>]"
proof -
  have valid: "subscribe_validation demo_validators resubscribe_cat = []"
    by (simp add: subscribe_validation_def demo_validators_def resubscribe_cat_def
        interest_enum_def)
  have found: "findOne (Q_email (normalizeEmail demo_validators (rq_email resubscribe_cat)))
                 [ann, cat] = Some 1"
    by (simp add: findOne_def demo_validators_def resubscribe_cat_def ann_def cat_def
        upt_conv_Cons)
  have inactive: "\<not> isActive ([ann, cat] ! 1)" by (simp add: cat_def)
  have stored: "schema_valid (emailPattern demo_validators) ([ann, cat] ! 1)"
    by (simp add: schema_valid_def demo_validators_def cat_def interest_enum_def
        source_enum_def)
  from subscribe_reactivates_in_place [OF valid found inactive stored,
      where ml = demo_mailer and now = 9 and g = "[]"]
  obtain g' where "post_subscribe demo_validators demo_mailer 9 resubscribe_cat [ann, cat] [] =
      (\<lparr>status = 200, success = True, message = ''Subscription reactivated successfully!'',
        payload = Reactivated ''c@x.com'' (Some ''Cat'') [''robotics-ml'']\<rparr>,
       [ann, cat\<lparr>isActive := True, interests := [''robotics-ml''], subscriptionDate := 9\<rparr>], g')"
    by (auto simp: Let_def resubscribe_cat_def cat_def)
  with valid found inactive stored show ?thesis by simp
qed

text \<open>
  C7. For an address that \<open>isEmail\<close> accepts, POST /unsubscribe answers 404 "Email not
  found in our newsletter list" exactly when the collection has no document for the
  normalised email, and then leaves the collection as it is. When the document is already
  inactive it answers 200 "You have already been unsubscribed" and changes nothing, so any
  number of further calls leaves the collection as it is. When the document is active (and
  satisfies the schema, as every saved document does) it answers 200 "Successfully
  unsubscribed from newsletter", the collection differs only in that document's
  \<open>isActive\<close>, now false, and the next call is answered "You have already been
  unsubscribed" without a change.
\<close>

theorem unsubscribe_cases:
  assumes email_ok: "isEmail vl raw"
  shows "(status (fst (post_unsubscribe vl raw st)) = 404)
           = (normalizeEmail vl raw \<notin> email ` set st)
         \<and> (normalizeEmail vl raw \<notin> email ` set st \<longrightarrow>
              post_unsubscribe vl raw st =
                (\<lparr>status = 404, success = False,
                  message = ''Email not found in our newsletter list'', payload = No_data\<rparr>, st))
         \<and> (\<forall>i. findOne (Q_email (normalizeEmail vl raw)) st = Some i \<and> \<not> isActive (st ! i) \<longrightarrow>
              post_unsubscribe vl raw st =
                (\<lparr>status = 200, success = True,
                  message = ''You have already been unsubscribed'', payload = No_data\<rparr>, st)
              \<and> (\<forall>n. ((\<lambda>s. snd (post_unsubscribe vl raw s)) ^^ n) st = st))
         \<and> (\<forall>i. findOne (Q_email (normalizeEmail vl raw)) st = Some i \<and> isActive (st ! i)
                  \<and> schema_valid (emailPattern vl) (st ! i) \<longrightarrow>
              post_unsubscribe vl raw st =
                (\<lparr>status = 200, success = True,
                  message = ''Successfully unsubscribed from newsletter'', payload = No_data\<rparr>,
                 st[i := (st ! i)\<lparr>isActive := False\<rparr>])
              \<and> post_unsubscribe vl raw (st[i := (st ! i)\<lparr>isActive := False\<rparr>]) =
                  (\<lparr>status = 200, success = True,
                    message = ''You have already been unsubscribed'', payload = No_data\<rparr>,
                   st[i := (st ! i)\<lparr>isActive := False\<rparr>]))"
proof -
  let ?e = "normalizeEmail vl raw"
  have a: "(status (fst (post_unsubscribe vl raw st)) = 404) = (?e \<notin> email ` set st)"
    using post_unsubscribe_status_404 [OF email_ok] by (simp add: findOne_email_None)
  have b: "post_unsubscribe vl raw st =
                (\<lparr>status = 404, success = False,
                  message = ''Email not found in our newsletter list'', payload = No_data\<rparr>, st)"
    if "?e \<notin> email ` set st"
    using that by (intro post_unsubscribe_None email_ok) (simp add: findOne_email_None)
  have c: "post_unsubscribe vl raw st =
                (\<lparr>status = 200, success = True,
                  message = ''You have already been unsubscribed'', payload = No_data\<rparr>, st)
           \<and> (\<forall>n. ((\<lambda>s. snd (post_unsubscribe vl raw s)) ^^ n) st = st)"
    if "findOne (Q_email ?e) st = Some i" "\<not> isActive (st ! i)" for i
  proof -
    have 1: "post_unsubscribe vl raw st =
                (\<lparr>status = 200, success = True,
                  message = ''You have already been unsubscribed'', payload = No_data\<rparr>, st)"
      using email_ok that by (rule post_unsubscribe_inactive)
    then have "snd (post_unsubscribe vl raw st) = st" by simp
    then have "\<forall>n. ((\<lambda>s. snd (post_unsubscribe vl raw s)) ^^ n) st = st"
      by (simp add: funpow_fixed)
    with 1 show ?thesis by simp
  qed
  have d: "post_unsubscribe vl raw st =
                (\<lparr>status = 200, success = True,
                  message = ''Successfully unsubscribed from newsletter'', payload = No_data\<rparr>,
                 st[i := (st ! i)\<lparr>isActive := False\<rparr>])
              \<and> post_unsubscribe vl raw (st[i := (st ! i)\<lparr>isActive := False\<rparr>]) =
                  (\<lparr>status = 200, success = True,
                    message = ''You have already been unsubscribed'', payload = No_data\<rparr>,
                   st[i := (st ! i)\<lparr>isActive := False\<rparr>])"
    if f: "findOne (Q_email ?e) st = Some i" and act: "isActive (st ! i)"
      and ok: "schema_valid (emailPattern vl) (st ! i)" for i
  proof -
    let ?st = "st[i := (st ! i)\<lparr>isActive := False\<rparr>]"
    from findOne_Some [OF f] have i: "i < length st" by simp
    then have "map email ?st = map email st" by (intro map_email_update) simp_all
    then have "findOne (Q_email ?e) ?st = findOne (Q_email ?e) st" by (rule findOne_email_cong)
    with f have f': "findOne (Q_email ?e) ?st = Some i" by simp
    from i have "\<not> isActive (?st ! i)" by simp
    with email_ok f' have "post_unsubscribe vl raw ?st =
                  (\<lparr>status = 200, success = True,
                    message = ''You have already been unsubscribed'', payload = No_data\<rparr>, ?st)"
      by (rule post_unsubscribe_inactive)
    with post_unsubscribe_active [OF email_ok f act ok] show ?thesis by simp
  qed
  from a b c d show ?thesis by blast
qed

theorem unsubscribe_cases_witness:
  "isEmail demo_validators ''d@x.com''
   \<and> post_unsubscribe demo_validators ''z@x.com'' [ann, cat, dan]
       = (\<lparr>status = 404, success = False,
           message = ''Email not found in our newsletter list'', payload = No_data\<rparr>,
          [ann, cat, dan])
   \<and> post_unsubscribe demo_validators ''c@x.com'' [ann, cat, dan]
       = (\<lparr>status = 200, success = True,
           message = ''You have already been unsubscribed'', payload = No_data\<rparr>,
          [ann, cat, dan])
   \<and> post_unsubscribe demo_validators ''d@x.com'' [ann, cat, dan]
       = (\<lparr>status = 200, success = True,
           message = ''Successfully unsubscribed from newsletter'', payload = No_data\<rparr>,
          [ann, cat, dan\<lparr>isActive := False\<rparr>])
   \<and> post_unsubscribe demo_validators ''d@x.com'' [ann, cat, dan\<lparr>isActive := False\<rparr>]
       = (\<lparr>status = 200, success = True,
           message = ''You have already been unsubscribed'', payload = No_data\<rparr>,
          [ann, cat, dan\<lparr>isActive := False\<rparr>])"
proof -
  let ?st = "[ann, cat, dan]"
  have v: "isEmail demo_validators ''d@x.com''" "isEmail demo_validators ''c@x.com''"
    "isEmail demo_validators ''z@x.com''"
    by (simp_all add: demo_validators_def)
  have n: "normalizeEmail demo_validators ''z@x.com'' \<notin> email ` set ?st"
    by (simp add: demo_validators_def ann_def cat_def dan_def)
  have c: "findOne (Q_email (normalizeEmail demo_validators ''c@x.com'')) ?st = Some 1
           \<and> \<not> isActive (?st ! 1)"
    by (simp add: findOne_def demo_validators_def ann_def cat_def dan_def upt_conv_Cons)
  have d: "findOne (Q_email (normalizeEmail demo_validators ''d@x.com'')) ?st = Some 2
           \<and> isActive (?st ! 2) \<and> schema_valid (emailPattern demo_validators) (?st ! 2)"
    by (simp add: findOne_def demo_validators_def ann_def cat_def dan_def upt_conv_Cons
        schema_valid_def interest_enum_def source_enum_def)
  from unsubscribe_cases [OF v(3), of ?st] n
  have 1: "post_unsubscribe demo_validators ''z@x.com'' ?st
       = (\<lparr>status = 404, success = False,
           message = ''Email not found in our newsletter list'', payload = No_data\<rparr>, ?st)"
    by blast
  from unsubscribe_cases [OF v(2), of ?st] c
  have 2: "post_unsubscribe demo_validators ''c@x.com'' ?st
       = (\<lparr>status = 200, success = True,
           message = ''You have already been unsubscribed'', payload = No_data\<rparr>, ?st)"
    by blast
  from unsubscribe_cases [OF v(1), of ?st] d
  have 3: "post_unsubscribe demo_validators ''d@x.com'' ?st =
                (\<lparr>status = 200, success = True,
                  message = ''Successfully unsubscribed from newsletter'', payload = No_data\<rparr>,
                 ?st[2 := (?st ! 2)\<lparr>isActive := False\<rparr>])
              \<and> post_unsubscribe demo_validators ''d@x.com'' (?st[2 := (?st ! 2)\<lparr>isActive := False\<rparr>]) =
                  (\<lparr>status = 200, success = True,
                    message = ''You have already been unsubscribed'', payload = No_data\<rparr>,
                   ?st[2 := (?st ! 2)\<lparr>isActive := False\<rparr>])"
    by blast
  have "?st[2 := (?st ! 2)\<lparr>isActive := False\<rparr>] = [ann, cat, dan\<lparr>isActive := False\<rparr>]"
    by (simp add: numeral_2_eq_2)
  with 3 v(1) 1 2 show ?thesis by simp
qed

text \<open>
  C8. The answer of POST /subscribe and the collection it leaves do not depend on the mail
  service: for any two mailers (any outcome of \<open>createTransporter\<close>, any answers of the
  transporter) and any two states of the gateway, the same request on the same collection
  gives the same response and the same collection, on the path that creates a document as
  on the path that reactivates one.
\<close>

theorem confirmation_failure_is_harmless:
  "fst (post_subscribe vl ml now rq st g) = fst (post_subscribe vl ml' now rq st g')
   \<and> fst (snd (post_subscribe vl ml now rq st g)) = fst (snd (post_subscribe vl ml' now rq st g'))"
  unfolding post_subscribe_def Let_def
  by (simp add: case_prod_beta split: option.splits sum.splits)


theorem confirmation_failure_is_harmless_witness:
  "fst (sendNewsletterConfirmation broken_mailer ''a@x.com'' (Some ''Ann'') [])
     = Mail_failed ''nodemailer.createTransporter is not a function''
   \<and> fst (sendNewsletterConfirmation demo_mailer ''a@x.com'' (Some ''Ann'') [])
       = Mail_ok ''id-a@x.com''
   \<and> fst (post_subscribe demo_validators broken_mailer 9 subscribe_ann [bob] [])
       = \<lparr>status = 201, success = True, message = ''Successfully subscribed to newsletter!'',
          payload = Subscribed ''a@x.com'' (Some ''Ann'') [''web-development''] 9\<rparr>
   \<and> fst (post_subscribe demo_validators demo_mailer 9 subscribe_ann [bob] [])
       = \<lparr>status = 201, success = True, message = ''Successfully subscribed to newsletter!'',
          payload = Subscribed ''a@x.com'' (Some ''Ann'') [''web-development''] 9\<rparr>
   \<and> fst (snd (post_subscribe demo_validators broken_mailer 9 subscribe_ann [bob] []))
       = [bob, ann\<lparr>subscriptionDate := 9, ipAddress := Some ''10.0.0.7''\<rparr>]
   \<and> fst (snd (post_subscribe demo_validators demo_mailer 9 subscribe_ann [bob] []))
       = [bob, ann\<lparr>subscriptionDate := 9, ipAddress := Some ''10.0.0.7''\<rparr>]"
proof -
  have f: "fst (sendNewsletterConfirmation broken_mailer ''a@x.com'' (Some ''Ann'') [])
             = Mail_failed ''nodemailer.createTransporter is not a function''"
    by (simp add: sendNewsletterConfirmation_def broken_mailer_def)
  have s: "fst (sendNewsletterConfirmation demo_mailer ''a@x.com'' (Some ''Ann'') [])
             = Mail_ok ''id-a@x.com''"
    by (simp add: sendNewsletterConfirmation_def demo_mailer_def sendMail_def second_fails_def
        confirmation_mail_def)
  have valid: "subscribe_validation demo_validators subscribe_ann = []"
    by (simp add: subscribe_validation_def demo_validators_def subscribe_ann_def
        interest_enum_def trim_def is_space_def)
  have nf: "findOne (Q_email ''a@x.com'') [bob] = None"
    by (simp add: findOne_None bob_def)
  have sv: "save (emailPattern demo_validators) None
              (new_Newsletter 9 ''a@x.com'' (Some ''Ann'') [''web-development'']
                 (Some ''10.0.0.7'') None) [bob]
            = Inr (ann\<lparr>subscriptionDate := 9, ipAddress := Some ''10.0.0.7''\<rparr>,
                   [bob, ann\<lparr>subscriptionDate := 9, ipAddress := Some ''10.0.0.7''\<rparr>])"
    by (simp add: save_def Let_def schema_valid_def pre_save_def new_Newsletter_def demo_validators_def
        interest_enum_def source_enum_def trim_def is_space_def ann_def bob_def)
  have b: "fst (post_subscribe demo_validators broken_mailer 9 subscribe_ann [bob] [])
       = \<lparr>status = 201, success = True, message = ''Successfully subscribed to newsletter!'',
          payload = Subscribed ''a@x.com'' (Some ''Ann'') [''web-development''] 9\<rparr>
     \<and> fst (snd (post_subscribe demo_validators broken_mailer 9 subscribe_ann [bob] []))
       = [bob, ann\<lparr>subscriptionDate := 9, ipAddress := Some ''10.0.0.7''\<rparr>]"
    unfolding post_subscribe_def Let_def valid
    using nf sv
    by (simp add: subscribe_ann_def demo_validators_def trim_def is_space_def case_prod_beta
        ann_def)
  from confirmation_failure_is_harmless
    [of demo_validators demo_mailer 9 subscribe_ann "[bob]" "[]" broken_mailer "[]"] b f s
  show ?thesis by simp
qed

text \<open>
  C3 fails on the reactivation path. A subscriber is created with interests
  \<open>['web-development']\<close> and unsubscribes; a subscribe request for the same email with
  \<open>interests: []\<close> passes validation and is answered 200, and the reactivated document
  is stored with no interests: \<open>[] || existingSubscriber.interests\<close> is \<open>[]\<close>, and the
  pre-save hook acts on new documents only. The same request on an empty collection creates
  a document with interests \<open>['all']\<close>.
\<close>

theorem reactivation_with_no_interests:
  "fst (snd (post_subscribe demo_validators demo_mailer 1 subscribe_ann [] []))
     = [ann\<lparr>ipAddress := Some ''10.0.0.7''\<rparr>]
   \<and> snd (post_unsubscribe demo_validators ''a@x.com'' [ann\<lparr>ipAddress := Some ''10.0.0.7''\<rparr>])
       = [ann\<lparr>isActive := False, ipAddress := Some ''10.0.0.7''\<rparr>]
   \<and> subscribe_validation demo_validators resubscribe_ann_no_interests = []
   \<and> post_subscribe demo_validators demo_mailer 9 resubscribe_ann_no_interests
        [ann\<lparr>isActive := False, ipAddress := Some ''10.0.0.7''\<rparr>] []
       = (\<lparr>status = 200, success = True, message = ''Subscription reactivated successfully!'',
           payload = Reactivated ''a@x.com'' (Some ''Ann'') []\<rparr>,
          [ann\<lparr>interests := [], subscriptionDate := 9, ipAddress := Some ''10.0.0.7''\<rparr>],
          [confirmation_mail demo_mailer ''a@x.com'' None])
   \<and> fst (snd (post_subscribe demo_validators demo_mailer 9 resubscribe_ann_no_interests [] []))
       = [\<lparr>email = ''a@x.com'', name = None, interests = [''all''],
           subscriptionSource = ''website'', isActive = True, subscriptionDate = 9,
           lastEmailSent = None, emailCount = 0, ipAddress = Some ''10.0.0.7'',
           userAgent = None\<rparr>]"
proof -
  have nf: "findOne (Q_email ''a@x.com'') [] = None"
    by (simp add: findOne_def)
  have valid1: "subscribe_validation demo_validators subscribe_ann = []"
    by (simp add: subscribe_validation_def demo_validators_def subscribe_ann_def
        interest_enum_def trim_def is_space_def)
  have first: "fst (snd (post_subscribe demo_validators demo_mailer 1 subscribe_ann [] []))
     = [ann\<lparr>ipAddress := Some ''10.0.0.7''\<rparr>]"
    unfolding post_subscribe_def Let_def valid1
    using nf
    by (simp add: subscribe_ann_def demo_validators_def save_def Let_def schema_valid_def
        pre_save_def new_Newsletter_def interest_enum_def source_enum_def trim_def is_space_def
        case_prod_beta ann_def)
  have f1: "findOne (Q_email ''a@x.com'') [ann\<lparr>ipAddress := Some ''10.0.0.7''\<rparr>] = Some 0"
    by (simp add: findOne_def ann_def)
  have second: "snd (post_unsubscribe demo_validators ''a@x.com'' [ann\<lparr>ipAddress := Some ''10.0.0.7''\<rparr>])
       = [ann\<lparr>isActive := False, ipAddress := Some ''10.0.0.7''\<rparr>]"
    unfolding post_unsubscribe_def Let_def
    using f1
    by (simp add: demo_validators_def save_def Let_def schema_valid_def pre_save_def
        interest_enum_def source_enum_def ann_def)
  have valid: "subscribe_validation demo_validators resubscribe_ann_no_interests = []"
    by (simp add: subscribe_validation_def demo_validators_def resubscribe_ann_no_interests_def)
  have f: "findOne (Q_email ''a@x.com'')
             [ann\<lparr>isActive := False, ipAddress := Some ''10.0.0.7''\<rparr>] = Some 0"
    by (simp add: findOne_def ann_def)
  have sv: "save (emailPattern demo_validators) (Some 0)
              (ann\<lparr>interests := [], subscriptionDate := 9, ipAddress := Some ''10.0.0.7''\<rparr>)
              [ann\<lparr>isActive := False, ipAddress := Some ''10.0.0.7''\<rparr>]
            = Inr (ann\<lparr>interests := [], subscriptionDate := 9, ipAddress := Some ''10.0.0.7''\<rparr>,
                   [ann\<lparr>interests := [], subscriptionDate := 9, ipAddress := Some ''10.0.0.7''\<rparr>])"
    by (simp add: save_def Let_def schema_valid_def pre_save_def demo_validators_def
        source_enum_def ann_def)
  have third: "post_subscribe demo_validators demo_mailer 9 resubscribe_ann_no_interests
        [ann\<lparr>isActive := False, ipAddress := Some ''10.0.0.7''\<rparr>] []
       = (\<lparr>status = 200, success = True, message = ''Subscription reactivated successfully!'',
           payload = Reactivated ''a@x.com'' (Some ''Ann'') []\<rparr>,
          [ann\<lparr>interests := [], subscriptionDate := 9, ipAddress := Some ''10.0.0.7''\<rparr>],
          [confirmation_mail demo_mailer ''a@x.com'' None])"
    unfolding post_subscribe_def Let_def valid
    using f sv
    by (simp add: resubscribe_ann_no_interests_def demo_validators_def truthy_def
        sendNewsletterConfirmation_def demo_mailer_def sendMail_def second_fails_def
        confirmation_mail_def ann_def)
  have new: "fst (snd (post_subscribe demo_validators demo_mailer 9 resubscribe_ann_no_interests [] []))
       = [\<lparr>email = ''a@x.com'', name = None, interests = [''all''],
           subscriptionSource = ''website'', isActive = True, subscriptionDate = 9,
           lastEmailSent = None, emailCount = 0, ipAddress = Some ''10.0.0.7'',
           userAgent = None\<rparr>]"
    unfolding post_subscribe_def Let_def valid
    using nf
    by (simp add: resubscribe_ann_no_interests_def demo_validators_def save_def Let_def
        schema_valid_def pre_save_def new_Newsletter_def source_enum_def trim_def is_space_def
        case_prod_beta)
  from first second valid third new show ?thesis by simp
qed

end
